theory Spec2Isabelle
  imports Complex_Main "HOL-Library.Word" "HOL-Library.AList" "HOL-Library.Multiset"
    "HOL-Library.Char_ord" "HOL-Library.List_Lexorder"
begin

unbundle bit_operations_syntax

section \<open>Data model\<close>

text \<open>
  The sub-agent core is JavaScript. Numbers are modelled exactly: integer scores as
  \<open>int\<close>, fractional scores as \<open>rat\<close>. Optional object fields are \<open>option\<close>s
  (\<open>None\<close> is JavaScript's \<open>undefined\<close>), tag arrays are string lists, and object
  literals used as lookup tables are association lists read with \<open>map_of\<close> over the
  keys written in the source. The tier names are an enumeration.
\<close>

datatype tier = DIRECT | TIER_1 | TIER_2 | TIER_3 | EXTERNAL

text \<open>
  The escalation envelope that \<open>handleQualityFailure\<close> attaches to a re-submitted task.
  No code reads it; its \<open>previousConsultation\<close> member is left out.
\<close>

record escalation_envelope =
  env_from :: tier
  env_reason :: string

record task =
  description :: "string option"
  domain :: "string option"
  scope :: "string option"
  files :: "string list option"
  integrations :: "string list option"
  governance :: bool
  databases :: "string list option"
  apis :: "string list option"
  services :: "string list option"
  crossTeam :: bool
  technologies :: "string list option"
  patterns :: "string list option"
  performance_requirements :: "string list option"
  scalability :: "string list option"
  compliance :: "string list option"
  businessLogic :: "string list option"
  dataRisk :: "string list option"
  systemRisk :: "string list option"
  implementationRisk :: "string list option"
  timeline_pressure :: "string option"
  requirements :: "string list option"
  complexity :: "rat option"
  complexityScore :: "rat option"
  implementation :: "string option"
  t_escalation :: "escalation_envelope option"

text \<open>The task with every field absent (the object literal \<open>{}\<close>).\<close>

definition emptyTask :: task where
  "emptyTask = \<lparr> description = None, domain = None, scope = None, files = None,
     integrations = None, governance = False, databases = None, apis = None,
     services = None, crossTeam = False, technologies = None, patterns = None,
     performance_requirements = None, scalability = None, compliance = None,
     businessLogic = None, dataRisk = None, systemRisk = None,
     implementationRisk = None, timeline_pressure = None, requirements = None,
     complexity = None, complexityScore = None, implementation = None,
     t_escalation = None \<rparr>"

subsection \<open>JavaScript idioms\<close>

text \<open>\<open>xs?.length > n\<close>, \<open>xs?.length === n\<close>: false when \<open>xs\<close> is undefined.\<close>

definition length_gt :: "'a list option \<Rightarrow> nat \<Rightarrow> bool" where
  "length_gt xs n = (case xs of None \<Rightarrow> False | Some l \<Rightarrow> n < length l)"

definition length_eq :: "'a list option \<Rightarrow> nat \<Rightarrow> bool" where
  "length_eq xs n = (case xs of None \<Rightarrow> False | Some l \<Rightarrow> length l = n)"

text \<open>\<open>xs?.includes(x)\<close> on a tag array: false when \<open>xs\<close> is undefined.\<close>

definition includes_opt :: "string list option \<Rightarrow> string \<Rightarrow> bool" where
  "includes_opt xs x = (case xs of None \<Rightarrow> False | Some l \<Rightarrow> x \<in> set l)"

text \<open>\<open>xs?.some(x => table.includes(x))\<close>.\<close>

definition some_in :: "string list option \<Rightarrow> string list \<Rightarrow> bool" where
  "some_in xs table = (case xs of None \<Rightarrow> False | Some l \<Rightarrow> list_ex (\<lambda>x. x \<in> set table) l)"

text \<open>\<open>score += n\<close> guarded by a condition.\<close>

definition bump :: "bool \<Rightarrow> int \<Rightarrow> int" where
  "bump c n = (if c then n else 0)"

section \<open>TaskComplexityAnalyzer\<close>

definition analyzeScopeComplexity :: "task \<Rightarrow> int" where
  "analyzeScopeComplexity t =
     (let score =
        (if scope t = Some ''single-function'' \<or> length_eq (files t) 1 then 1
         else if length_gt (files t) 1 \<and> \<not> length_gt (files t) 5 then 3
         else if length_gt (files t) 5 \<or> scope t = Some ''system-wide'' then 5
         else if scope t = Some ''cross-system'' \<or> length_gt (integrations t) 0 then 8
         else if scope t = Some ''enterprise'' \<or> governance t then 10
         else 1);
          score = score + bump (length_gt (databases t) 1) 2;
          score = score + bump (length_gt (apis t) 3) 2;
          score = score + bump (length_gt (services t) 2) 3;
          score = score + bump (crossTeam t) 2
      in min score 10)"

definition complexTechnologies :: "string list" where
  "complexTechnologies = [''microservices'', ''distributed-systems'', ''blockchain'',
     ''machine-learning'', ''real-time-processing'', ''streaming'']"

definition complexPatterns :: "string list" where
  "complexPatterns = [''event-sourcing'', ''cqrs'', ''saga'', ''circuit-breaker'',
     ''distributed-transactions'', ''consensus-algorithms'']"

definition analyzeTechnicalComplexity :: "task \<Rightarrow> int" where
  "analyzeTechnicalComplexity t =
     (let score = 1;
          score = score + bump (some_in (technologies t) complexTechnologies) 3;
          score = score + bump (some_in (patterns t) complexPatterns) 4;
          score = score + (case integrations t of
                             None \<Rightarrow> 0
                           | Some l \<Rightarrow> if 0 < length l then min (int (length l) * 2) 6 else 0);
          score = score + bump (includes_opt (performance_requirements t) ''sub-second'') 3;
          score = score + bump (includes_opt (performance_requirements t) ''high-throughput'') 2;
          score = score + bump (includes_opt (performance_requirements t) ''real-time'') 4;
          score = score + bump (includes_opt (scalability t) ''horizontal'') 2;
          score = score + bump (includes_opt (scalability t) ''auto-scaling'') 3;
          score = score + bump (includes_opt (scalability t) ''global-distribution'') 4
      in min score 10)"

definition complexDomains :: "(string \<times> int) list" where
  "complexDomains = [(''financial'', 4), (''healthcare'', 5), (''security'', 4),
     (''ml-ai'', 5), (''blockchain'', 6), (''embedded'', 4), (''real-time'', 4),
     (''distributed-systems'', 5), (''data-science'', 4)]"

definition complianceComplexity :: "(string \<times> int) list" where
  "complianceComplexity = [(''gdpr'', 3), (''hipaa'', 4), (''pci-dss'', 4), (''sox'', 3),
     (''iso-27001'', 3), (''fda'', 5)]"

text \<open>\<open>if (table[key]) score += table[key]\<close>: a missing key adds nothing.\<close>

definition table_score :: "(string \<times> int) list \<Rightarrow> string \<Rightarrow> int" where
  "table_score table key = (case map_of table key of None \<Rightarrow> 0 | Some v \<Rightarrow> v)"

definition analyzeDomainComplexity :: "task \<Rightarrow> int" where
  "analyzeDomainComplexity t =
     (let score = 1;
          score = score + (case domain t of None \<Rightarrow> 0 | Some d \<Rightarrow> table_score complexDomains d);
          score = score + (case compliance t of
                             None \<Rightarrow> 0
                           | Some cs \<Rightarrow> sum_list (map (table_score complianceComplexity) cs));
          score = score + bump (includes_opt (businessLogic t) ''complex-calculations'') 2;
          score = score + bump (includes_opt (businessLogic t) ''multi-step-workflows'') 3;
          score = score + bump (includes_opt (businessLogic t) ''state-machines'') 3;
          score = score + bump (includes_opt (businessLogic t) ''rule-engines'') 4
      in min score 10)"

definition analyzeRiskLevel :: "task \<Rightarrow> int" where
  "analyzeRiskLevel t =
     (let score = 1;
          score = score + bump (includes_opt (dataRisk t) ''pii'') 3;
          score = score + bump (includes_opt (dataRisk t) ''financial'') 4;
          score = score + bump (includes_opt (dataRisk t) ''medical'') 4;
          score = score + bump (includes_opt (dataRisk t) ''sensitive'') 2;
          score = score + bump (includes_opt (systemRisk t) ''production-critical'') 4;
          score = score + bump (includes_opt (systemRisk t) ''revenue-impacting'') 3;
          score = score + bump (includes_opt (systemRisk t) ''user-facing'') 2;
          score = score + bump (includes_opt (systemRisk t) ''data-loss-potential'') 5;
          score = score + bump (includes_opt (implementationRisk t) ''breaking-changes'') 3;
          score = score + bump (includes_opt (implementationRisk t) ''migration-required'') 4;
          score = score + bump (includes_opt (implementationRisk t) ''rollback-difficult'') 3;
          score = score + bump (includes_opt (implementationRisk t) ''external-dependencies'') 2;
          score = score + bump (timeline_pressure t = Some ''urgent'') 2;
          score = score + bump (timeline_pressure t = Some ''critical'') 4
      in min score 10)"

record breakdown =
  b_scope :: int
  b_technical :: int
  b_domain :: int
  b_risk :: int

record complexity_analysis =
  overallScore :: rat
  tier :: tier
  breakdown :: breakdown
  confidence :: rat
  recommendations :: "string list"

definition calculateConfidence :: "breakdown \<Rightarrow> rat" where
  "calculateConfidence c =
     (let indicators = filter (\<lambda>score. 1 < score) [b_scope c, b_technical c, b_domain c, b_risk c]
      in min (of_nat (length indicators) * (1 / 4)) 1)"

definition generateRecommendations :: "breakdown \<Rightarrow> tier \<Rightarrow> string list" where
  "generateRecommendations c tr =
     (if 7 < b_scope c then [''Consider breaking down into smaller tasks''] else []) @
     (if 8 < b_technical c then [''Require multiple technical specialists''] else []) @
     (if 6 < b_domain c then [''Domain expert consultation required''] else []) @
     (if 7 < b_risk c then [''Implement comprehensive risk mitigation''] else []) @
     (if tr = TIER_3 then [''Cross-domain architectural review needed''] else [])"

definition calculateOverallComplexity :: "breakdown \<Rightarrow> complexity_analysis" where
  "calculateOverallComplexity c =
     (let score = of_int (b_scope c) * (3 / 10) + of_int (b_technical c) * (3 / 10)
                  + of_int (b_domain c) * (1 / 4) + of_int (b_risk c) * (3 / 20);
          tr = (if score \<le> 3 then DIRECT
                else if score \<le> 6 then TIER_1
                else if score \<le> 8 then TIER_2
                else TIER_3)
      in \<lparr> overallScore = score, tier = tr, breakdown = c,
           confidence = calculateConfidence c,
           recommendations = generateRecommendations c tr \<rparr>)"

definition analyzeTask :: "task \<Rightarrow> complexity_analysis" where
  "analyzeTask t =
     calculateOverallComplexity
       \<lparr> b_scope = analyzeScopeComplexity t, b_technical = analyzeTechnicalComplexity t,
         b_domain = analyzeDomainComplexity t, b_risk = analyzeRiskLevel t \<rparr>"

subsection \<open>Strings\<close>

text \<open>
  \<open>String.prototype.includes\<close> (substring test), \<open>toLowerCase\<close> on ASCII letters,
  \<open>Array.prototype.join(' ')\<close>, and the text a template literal gives an absent value.
\<close>

fun startsWith :: "string \<Rightarrow> string \<Rightarrow> bool" where
  "startsWith s [] = True"
| "startsWith [] (k # ks) = False"
| "startsWith (c # cs) (k # ks) = (c = k \<and> startsWith cs ks)"

fun str_includes :: "string \<Rightarrow> string \<Rightarrow> bool" where
  "str_includes [] k = (k = [])"
| "str_includes (c # cs) k = (startsWith (c # cs) k \<or> str_includes cs k)"

definition toLowerChar :: "char \<Rightarrow> char" where
  "toLowerChar c =
     (let n = (of_char c :: nat) in if 65 \<le> n \<and> n \<le> 90 then char_of (n + 32) else c)"

definition toLowerCase :: "string \<Rightarrow> string" where
  "toLowerCase s = map toLowerChar s"

fun join_space :: "string list \<Rightarrow> string" where
  "join_space [] = []"
| "join_space [x] = x"
| "join_space (x # y # ys) = x @ '' '' @ join_space (y # ys)"

definition template_text :: "string option \<Rightarrow> string" where
  "template_text x = (case x of None \<Rightarrow> ''undefined'' | Some s \<Rightarrow> s)"

section \<open>TaskRouter\<close>

text \<open>
  \<open>route\<close> also returns a timestamp and the caller's context object inside its
  \<open>routing\<close> member; no code reads them and they are not modelled.
  \<open>getSpecialistPerformance\<close> returns \<open>null\<close> for every specialist, so the
  historical-performance bonus never applies.
\<close>

definition domainKeywords :: "(string \<times> string list) list" where
  "domainKeywords =
     [(''data'', [''database'', ''query'', ''analytics'', ''etl'', ''warehouse'', ''lake'']),
      (''security'', [''auth'', ''oauth'', ''jwt'', ''encryption'', ''vulnerability'', ''compliance'']),
      (''performance'', [''optimization'', ''caching'', ''scaling'', ''latency'', ''throughput'']),
      (''integration'', [''api'', ''webhook'', ''service'', ''microservice'', ''messaging'']),
      (''frontend'', [''ui'', ''ux'', ''react'', ''vue'', ''angular'', ''component'']),
      (''architecture'', [''design'', ''pattern'', ''structure'', ''system'', ''scalability'']),
      (''ml'', [''machine-learning'', ''ai'', ''model'', ''prediction'', ''classification'']),
      (''testing'', [''test'', ''qa'', ''automation'', ''ci/cd'', ''deployment''])]"

fun firstKeywordDomain :: "(string \<times> string list) list \<Rightarrow> string \<Rightarrow> string" where
  "firstKeywordDomain [] taskText = ''general''"
| "firstKeywordDomain ((d, keywords) # rest) taskText =
     (if list_ex (\<lambda>keyword. str_includes taskText keyword) keywords then d
      else firstKeywordDomain rest taskText)"

definition taskText :: "task \<Rightarrow> string" where
  "taskText t = toLowerCase
     (template_text (description t) @ '' '' @
      template_text (map_option join_space (requirements t)) @ '' '' @
      template_text (map_option join_space (technologies t)))"

definition identifyDomain :: "task \<Rightarrow> string" where
  "identifyDomain t =
     (case domain t of
        Some d \<Rightarrow> if d \<noteq> [] then d else firstKeywordDomain domainKeywords (taskText t)
      | None \<Rightarrow> firstKeywordDomain domainKeywords (taskText t))"

definition specialistMapping :: "tier \<Rightarrow> (string \<times> string list) list" where
  "specialistMapping tr =
     (case tr of
        TIER_1 \<Rightarrow>
          [(''data'', [''data-generalist'']),
           (''security'', [''security-generalist'']),
           (''performance'', [''performance-generalist'']),
           (''integration'', [''integration-generalist'']),
           (''frontend'', [''frontend-generalist'']),
           (''architecture'', [''architecture-generalist'']),
           (''general'', [''architecture-generalist''])]
      | TIER_2 \<Rightarrow>
          [(''data'', [''database-specialist'']),
           (''security'', [''auth-systems-specialist'']),
           (''performance'', [''performance-optimization-specialist'']),
           (''integration'', [''api-design-specialist'']),
           (''ml'', [''ml-integration-specialist'']),
           (''testing'', [''testing-strategy-specialist'']),
           (''general'', [''database-specialist'', ''api-design-specialist''])]
      | TIER_3 \<Rightarrow>
          [(''data'', [''data-architect'']),
           (''security'', [''security-architect'']),
           (''integration'', [''integration-architect'']),
           (''architecture'', [''system-architect'']),
           (''scale'', [''scale-architect'']),
           (''governance'', [''governance-architect'']),
           (''general'', [''system-architect''])]
      | _ \<Rightarrow> [])"

definition getSpecialistsForDomain :: "string \<Rightarrow> tier \<Rightarrow> string list" where
  "getSpecialistsForDomain d tr =
     (case map_of (specialistMapping tr) d of
        Some l \<Rightarrow> l
      | None \<Rightarrow> (case map_of (specialistMapping tr) ''general'' of Some l \<Rightarrow> l | None \<Rightarrow> []))"

record capabilities =
  cap_domains :: "string list"
  cap_technologies :: "string list"
  minComplexity :: int
  maxComplexity :: int

definition routerCapabilities :: "(string \<times> capabilities) list" where
  "routerCapabilities =
     [(''architecture-generalist'',
        \<lparr>cap_domains = [''architecture'', ''design'', ''system''],
         cap_technologies = [''microservices'', ''design-patterns'', ''scalability''],
         minComplexity = 3, maxComplexity = 6\<rparr>),
      (''security-generalist'',
        \<lparr>cap_domains = [''security'', ''auth''],
         cap_technologies = [''oauth'', ''jwt'', ''encryption''],
         minComplexity = 3, maxComplexity = 6\<rparr>),
      (''performance-generalist'',
        \<lparr>cap_domains = [''performance'', ''optimization''],
         cap_technologies = [''caching'', ''monitoring'', ''profiling''],
         minComplexity = 3, maxComplexity = 6\<rparr>),
      (''data-generalist'',
        \<lparr>cap_domains = [''data'', ''database''],
         cap_technologies = [''sql'', ''nosql'', ''analytics''],
         minComplexity = 3, maxComplexity = 6\<rparr>),
      (''integration-generalist'',
        \<lparr>cap_domains = [''integration'', ''api''],
         cap_technologies = [''rest'', ''graphql'', ''webhooks''],
         minComplexity = 3, maxComplexity = 6\<rparr>),
      (''frontend-generalist'',
        \<lparr>cap_domains = [''frontend'', ''ui''],
         cap_technologies = [''react'', ''vue'', ''angular''],
         minComplexity = 3, maxComplexity = 6\<rparr>),
      (''database-specialist'',
        \<lparr>cap_domains = [''data'', ''database''],
         cap_technologies = [''postgresql'', ''redis'', ''mongodb''],
         minComplexity = 6, maxComplexity = 8\<rparr>),
      (''api-design-specialist'',
        \<lparr>cap_domains = [''integration'', ''api''],
         cap_technologies = [''rest'', ''graphql'', ''openapi''],
         minComplexity = 6, maxComplexity = 8\<rparr>),
      (''auth-systems-specialist'',
        \<lparr>cap_domains = [''security'', ''auth''],
         cap_technologies = [''oauth2'', ''saml'', ''jwt'', ''mfa''],
         minComplexity = 6, maxComplexity = 8\<rparr>),
      (''performance-optimization-specialist'',
        \<lparr>cap_domains = [''performance''],
         cap_technologies = [''profiling'', ''optimization'', ''monitoring''],
         minComplexity = 6, maxComplexity = 8\<rparr>),
      (''ml-integration-specialist'',
        \<lparr>cap_domains = [''ml'', ''ai''],
         cap_technologies = [''tensorflow'', ''pytorch'', ''ml-apis''],
         minComplexity = 6, maxComplexity = 8\<rparr>),
      (''testing-strategy-specialist'',
        \<lparr>cap_domains = [''testing'', ''qa''],
         cap_technologies = [''jest'', ''cypress'', ''ci-cd''],
         minComplexity = 6, maxComplexity = 8\<rparr>),
      (''system-architect'',
        \<lparr>cap_domains = [''architecture'', ''system''],
         cap_technologies = [''enterprise'', ''distributed-systems''],
         minComplexity = 8, maxComplexity = 10\<rparr>),
      (''integration-architect'',
        \<lparr>cap_domains = [''integration''],
         cap_technologies = [''service-mesh'', ''event-driven''],
         minComplexity = 8, maxComplexity = 10\<rparr>),
      (''scale-architect'',
        \<lparr>cap_domains = [''scale'', ''performance''],
         cap_technologies = [''horizontal-scaling'', ''distributed-systems''],
         minComplexity = 8, maxComplexity = 10\<rparr>),
      (''security-architect'',
        \<lparr>cap_domains = [''security''],
         cap_technologies = [''enterprise-security'', ''compliance''],
         minComplexity = 8, maxComplexity = 10\<rparr>),
      (''data-architect'',
        \<lparr>cap_domains = [''data''],
         cap_technologies = [''data-lakes'', ''warehouses'', ''governance''],
         minComplexity = 8, maxComplexity = 10\<rparr>),
      (''governance-architect'',
        \<lparr>cap_domains = [''governance''],
         cap_technologies = [''compliance'', ''policy-enforcement''],
         minComplexity = 8, maxComplexity = 10\<rparr>)]"

text \<open>\<open>capabilities[specialist] || {}\<close>: \<open>None\<close> stands for the empty object.\<close>

definition getSpecialistCapabilities :: "string \<Rightarrow> capabilities option" where
  "getSpecialistCapabilities specialist = map_of routerCapabilities specialist"

definition calculateSpecialistScore :: "string \<Rightarrow> task \<Rightarrow> complexity_analysis \<Rightarrow> int" where
  "calculateSpecialistScore specialist t c =
     (let caps = getSpecialistCapabilities specialist;
          score = 0;
          score = score + bump (case caps of None \<Rightarrow> False
                                | Some k \<Rightarrow> identifyDomain t \<in> set (cap_domains k)) 10;
          score = score + (case technologies t of
                             None \<Rightarrow> 0
                           | Some ts \<Rightarrow>
                               int (length (filter (\<lambda>tech. case caps of None \<Rightarrow> False
                                      | Some k \<Rightarrow> tech \<in> set (cap_technologies k)) ts)) * 2);
          score = score + bump (case caps of None \<Rightarrow> False
                                | Some k \<Rightarrow> of_int (minComplexity k) \<le> overallScore c \<and>
                                            overallScore c \<le> of_int (maxComplexity k)) 5
      in score)"

text \<open>
  The candidates are sorted by descending score with a stable sort and the first is
  taken, so the earliest candidate of maximal score wins.
\<close>

definition selectBestSpecialist :: "string list \<Rightarrow> task \<Rightarrow> complexity_analysis \<Rightarrow> string option" where
  "selectBestSpecialist specialists t c =
     (case specialists of
        [] \<Rightarrow> None
      | [s] \<Rightarrow> Some s
      | _ \<Rightarrow>
          (let specialistScores = map (\<lambda>s. (s, calculateSpecialistScore s t c)) specialists
           in Some (fst (hd (sort_key (\<lambda>p. - snd p) specialistScores)))))"

definition selectSpecialist :: "task \<Rightarrow> complexity_analysis \<Rightarrow> string option" where
  "selectSpecialist t c =
     selectBestSpecialist (getSpecialistsForDomain (identifyDomain t) (tier c)) t c"

definition getProtocol :: "tier \<Rightarrow> string option" where
  "getProtocol tr =
     (case tr of
        DIRECT \<Rightarrow> Some ''direct-implementation''
      | TIER_1 \<Rightarrow> Some ''quick-consultation''
      | TIER_2 \<Rightarrow> Some ''deep-analysis''
      | TIER_3 \<Rightarrow> Some ''architectural-coordination''
      | EXTERNAL \<Rightarrow> None)"

definition baseTime :: "tier \<Rightarrow> rat" where
  "baseTime tr = (case tr of TIER_1 \<Rightarrow> 120 | TIER_2 \<Rightarrow> 480 | TIER_3 \<Rightarrow> 1440 | _ \<Rightarrow> 30)"

text \<open>\<open>Math.round\<close> rounds half up.\<close>

definition estimateTime :: "complexity_analysis \<Rightarrow> int" where
  "estimateTime c =
     (let tierTime = baseTime (tier c);
          complexityMultiplier = 1 + overallScore c / 10
      in \<lfloor>tierTime * complexityMultiplier + 1 / 2\<rfloor>)"

definition getQualityChecks :: "tier \<Rightarrow> string list" where
  "getQualityChecks tr =
     (case tr of
        TIER_1 \<Rightarrow> [''syntax-check'', ''unit-tests'', ''code-review'']
      | TIER_2 \<Rightarrow> [''syntax-check'', ''unit-tests'', ''integration-tests'', ''code-review'',
                    ''security-scan'']
      | TIER_3 \<Rightarrow> [''syntax-check'', ''unit-tests'', ''integration-tests'', ''e2e-tests'',
                    ''code-review'', ''security-scan'', ''performance-test'',
                    ''architectural-review'']
      | _ \<Rightarrow> [''syntax-check'', ''basic-test''])"

record routing_info =
  r_tier :: tier
  r_confidence :: rat

record routing_decision =
  rd_complexity :: complexity_analysis
  specialist :: "string option"
  protocol :: "string option"
  estimatedTime :: int
  qualityChecks :: "string list"
  routing :: routing_info

definition route :: "task \<Rightarrow> routing_decision" where
  "route t =
     (let c = analyzeTask t;
          sp = selectSpecialist t c
      in \<lparr> rd_complexity = c, specialist = sp, protocol = getProtocol (tier c),
           estimatedTime = estimateTime c, qualityChecks = getQualityChecks (tier c),
           routing = \<lparr> r_tier = tier c, r_confidence = confidence c \<rparr> \<rparr>)"

text \<open>The scenario task \<open>{complexity: 9, scope: "enterprise", technologies: [...]}\<close>.\<close>

definition enterpriseTask :: task where
  "enterpriseTask = emptyTask \<lparr> scope := Some ''enterprise'',
     technologies := Some [''distributed-systems'', ''microservices''],
     complexity := Some 9 \<rparr>"

section \<open>QualityAssurance\<close>

text \<open>
  A JavaScript number that may be \<open>NaN\<close>: \<open>None\<close> is \<open>NaN\<close>. Every comparison
  with \<open>NaN\<close> is false and arithmetic on \<open>NaN\<close> gives \<open>NaN\<close>.
\<close>

type_synonym jsnum = "rat option"

definition js_ge :: "jsnum \<Rightarrow> rat \<Rightarrow> bool" where
  "js_ge x b = (case x of None \<Rightarrow> False | Some v \<Rightarrow> b \<le> v)"

definition js_lt :: "jsnum \<Rightarrow> rat \<Rightarrow> bool" where
  "js_lt x b = (case x of None \<Rightarrow> False | Some v \<Rightarrow> v < b)"

definition js_add :: "jsnum \<Rightarrow> jsnum \<Rightarrow> jsnum" where
  "js_add x y = (case x of None \<Rightarrow> None | Some a \<Rightarrow> map_option (\<lambda>b. a + b) y)"

definition js_scale :: "jsnum \<Rightarrow> rat \<Rightarrow> jsnum" where
  "js_scale x k = map_option (\<lambda>a. a * k) x"

definition js_div :: "jsnum \<Rightarrow> rat \<Rightarrow> jsnum" where
  "js_div x k = (if k = 0 then None else map_option (\<lambda>a. a / k) x)"

subsection \<open>Recommendations\<close>

record implementation_plan =
  overview :: string
  steps :: "string list"
  plan_patterns :: "string list"
  plan_technologies :: "string list"
  considerations :: "string list"

record risk =
  risk_type :: string
  probability :: rat
  impact :: string
  mitigation :: string

record resources =
  personnel :: "string list"
  tools :: "string list"
  res_time :: string

record testing_strategy =
  ts_unit :: string
  ts_integration :: string
  ts_e2e :: string
  ts_performance :: string
  ts_security :: string

record recommendation =
  approach :: string
  rec_implementation :: "implementation_plan option"
  rec_testing :: "string option"
  rec_deployment :: "string option"
  rec_description :: "string option"
  rec_documentation :: "string option"
  rationale :: "string option"
  risks :: "risk list"
  rec_timeline :: "string option"
  rec_resources :: "resources option"
  qualityMetrics :: "string list"
  testingStrategy :: "testing_strategy option"
  rec_confidence :: rat

text \<open>Truthiness of an optional string member: absent and empty are both falsy.\<close>

definition truthy :: "string option \<Rightarrow> bool" where
  "truthy x = (case x of None \<Rightarrow> False | Some s \<Rightarrow> s \<noteq> [])"

subsection \<open>Methods the class calls but does not define\<close>

text \<open>
  \<open>QualityAssurance\<close> calls static methods that no source file defines: the five risk
  assessors and \<open>categorizeRiskLevel\<close>, the four consistency checks and the six security
  checks. They are parameters of the model: each risk assessor gives the \<open>score\<close> member
  of its result, each consistency check the \<open>consistent\<close> member, each security check
  the \<open>secure\<close> member. \<open>stringify\<close> stands for \<open>JSON.stringify\<close> applied to a
  recommendation.
\<close>

record qa_helpers =
  assessTechnicalRisks :: "recommendation \<Rightarrow> rat"
  assessSecurityRisks :: "recommendation \<Rightarrow> rat"
  assessPerformanceRisks :: "recommendation \<Rightarrow> rat"
  assessMaintenanceRisks :: "recommendation \<Rightarrow> rat"
  assessBusinessRisks :: "recommendation \<Rightarrow> rat"
  categorizeRiskLevel :: "rat \<Rightarrow> string"
  checkArchitecturalConsistency :: "recommendation \<Rightarrow> bool"
  checkCodingStandards :: "recommendation \<Rightarrow> bool"
  checkNamingConsistency :: "recommendation \<Rightarrow> bool"
  checkPatternConsistency :: "recommendation \<Rightarrow> task \<Rightarrow> bool"
  checkDataProtection :: "recommendation \<Rightarrow> bool"
  checkAccessControl :: "recommendation \<Rightarrow> bool"
  checkInputValidation :: "recommendation \<Rightarrow> bool"
  checkOutputSanitization :: "recommendation \<Rightarrow> bool"
  checkCryptographyUsage :: "recommendation \<Rightarrow> bool"
  checkVulnerabilityIntroduction :: "recommendation \<Rightarrow> bool"
  stringify :: "recommendation \<Rightarrow> string"

subsection \<open>The six checks\<close>

text \<open>
  Of each check's result the model keeps the members that other code reads: \<open>passed\<close>,
  \<open>score\<close> and, for the risk assessment, \<open>riskLevel\<close>.
\<close>

record check_result =
  passed :: bool
  score :: jsnum

record risk_result = check_result +
  riskLevel :: string

text \<open>\<open>QualityAssurance.getSpecialistCapabilities\<close> returns one fixed object.\<close>

definition qaCapabilityDomain :: string where
  "qaCapabilityDomain = ''integration''"

definition qaCapabilityTechnologies :: "string list" where
  "qaCapabilityTechnologies = [''rest'', ''graphql'', ''webhooks'']"

definition calculateDomainMatch :: "string \<Rightarrow> string \<Rightarrow> rat" where
  "calculateDomainMatch specialistDomain taskDomain =
     (if specialistDomain = taskDomain then 1 else 1 / 2)"

text \<open>The quotient is \<open>0/0 = NaN\<close> for an empty technology array.\<close>

definition calculateTechnologyMatch :: "string list \<Rightarrow> string list \<Rightarrow> jsnum" where
  "calculateTechnologyMatch specialistTechs taskTechs =
     (let matches = length (filter (\<lambda>tech. tech \<in> set specialistTechs) taskTechs)
      in js_div (Some (of_nat matches)) (of_nat (length taskTechs)))"

definition checkComplexityFit :: "rat \<Rightarrow> rat" where
  "checkComplexityFit cs = (if 3 \<le> cs \<and> cs \<le> 6 then 1 else 1 / 2)"

definition checkExpertiseAlignment :: "string option \<Rightarrow> task \<Rightarrow> check_result" where
  "checkExpertiseAlignment sp t =
     (let alignmentScore = Some 0;
          maxScore = 0;
          maxScore = maxScore + 10;
          alignmentScore =
            (case domain t of
               None \<Rightarrow> alignmentScore
             | Some d \<Rightarrow>
                 if d \<noteq> []
                 then js_add alignmentScore (Some (calculateDomainMatch qaCapabilityDomain d * 10))
                 else alignmentScore);
          maxScore = maxScore + 10;
          alignmentScore =
            (case technologies t of
               None \<Rightarrow> alignmentScore
             | Some ts \<Rightarrow>
                 js_add alignmentScore
                   (js_scale (calculateTechnologyMatch qaCapabilityTechnologies ts) 10));
          maxScore = maxScore + 10;
          alignmentScore =
            (case complexityScore t of
               None \<Rightarrow> alignmentScore
             | Some cs \<Rightarrow>
                 if cs \<noteq> 0 then js_add alignmentScore (Some (checkComplexityFit cs * 10))
                 else alignmentScore);
          finalScore = (if 0 < maxScore then js_div alignmentScore maxScore else Some 0)
      in \<lparr> passed = js_ge finalScore (7 / 10), score = finalScore \<rparr>)"

definition requiredElementPresent :: "recommendation \<Rightarrow> bool \<Rightarrow> string \<Rightarrow> bool" where
  "requiredElementPresent r member element =
     (member \<or> (case rec_description r of None \<Rightarrow> False | Some d \<Rightarrow> str_includes d element))"

definition checkCompleteness :: "recommendation \<Rightarrow> rat" where
  "checkCompleteness r =
     (let presentElements = length (filter (\<lambda>b. b)
            [requiredElementPresent r (rec_implementation r \<noteq> None) ''implementation'',
             requiredElementPresent r (truthy (rec_testing r)) ''testing'',
             requiredElementPresent r (truthy (rec_deployment r)) ''deployment''])
      in of_nat presentElements / 3)"

definition checkClarity :: "recommendation \<Rightarrow> rat" where
  "checkClarity r =
     (let description = (case rec_description r of None \<Rightarrow> [] | Some d \<Rightarrow> d)
      in if 50 < length description then 4 / 5 else 2 / 5)"

definition checkFeasibility :: "recommendation \<Rightarrow> rat" where
  "checkFeasibility r =
     (if truthy (rec_timeline r) \<and> rec_resources r \<noteq> None then 9 / 10 else 3 / 5)"

definition bestPracticeIndicators :: "string list" where
  "bestPracticeIndicators =
     [''error handling'', ''logging'', ''validation'', ''testing'', ''documentation'']"

definition checkBestPractices :: "qa_helpers \<Rightarrow> recommendation \<Rightarrow> rat" where
  "checkBestPractices h r =
     (let text = toLowerCase (stringify h r);
          presentPractices = length (filter (\<lambda>practice. str_includes text practice)
                                       bestPracticeIndicators)
      in of_nat presentPractices / of_nat (length bestPracticeIndicators))"

definition checkDocumentation :: "recommendation \<Rightarrow> rat" where
  "checkDocumentation r = (if truthy (rec_documentation r) then 1 else 3 / 10)"

definition testabilityIndicators :: "string list" where
  "testabilityIndicators = [''test'', ''mock'', ''stub'', ''assertion'']"

definition checkTestability :: "qa_helpers \<Rightarrow> recommendation \<Rightarrow> rat" where
  "checkTestability h r =
     (let text = toLowerCase (stringify h r);
          hasTestability = list_ex (\<lambda>indicator. str_includes text indicator) testabilityIndicators
      in if hasTestability then 9 / 10 else 2 / 5)"

definition assessRecommendationQuality :: "qa_helpers \<Rightarrow> recommendation \<Rightarrow> check_result" where
  "assessRecommendationQuality h r =
     (let scores = [checkCompleteness r, checkClarity r, checkFeasibility r,
                    checkBestPractices h r, checkDocumentation r, checkTestability h r];
          averageScore = sum_list scores / of_nat (length scores)
      in \<lparr> passed = (4 / 5 \<le> averageScore), score = Some averageScore \<rparr>)"

definition checkTimelineRealistic :: "recommendation \<Rightarrow> bool" where
  "checkTimelineRealistic r = (if truthy (rec_timeline r) then True else False)"

text \<open>
  The resource, dependency, skill and tool checks report \<open>passed: true\<close> for every
  recommendation.
\<close>

definition checkImplementationViability :: "recommendation \<Rightarrow> check_result" where
  "checkImplementationViability r =
     (let viabilityChecks = [True, checkTimelineRealistic r, True, True, True];
          passedChecks = length (filter (\<lambda>check. check) viabilityChecks);
          totalChecks = length viabilityChecks;
          viabilityScore = of_nat passedChecks / of_nat totalChecks
      in \<lparr> passed = (4 / 5 \<le> viabilityScore), score = Some viabilityScore \<rparr>)"

definition assessRisks :: "qa_helpers \<Rightarrow> recommendation \<Rightarrow> risk_result" where
  "assessRisks h r =
     (let riskScores = [assessTechnicalRisks h r, assessSecurityRisks h r,
                        assessPerformanceRisks h r, assessMaintenanceRisks h r,
                        assessBusinessRisks h r];
          totalRiskScore = sum_list riskScores / of_nat (length riskScores);
          level = categorizeRiskLevel h totalRiskScore
      in \<lparr> passed = (level \<noteq> ''high''), score = Some (1 - totalRiskScore), riskLevel = level \<rparr>)"

definition checkConsistency :: "qa_helpers \<Rightarrow> recommendation \<Rightarrow> task \<Rightarrow> check_result" where
  "checkConsistency h r t =
     (let consistencyChecks = [checkArchitecturalConsistency h r, checkCodingStandards h r,
                               checkNamingConsistency h r, checkPatternConsistency h r t];
          consistentChecks = length (filter (\<lambda>c. c) consistencyChecks);
          totalChecks = length consistencyChecks;
          consistencyScore = of_nat consistentChecks / of_nat totalChecks
      in \<lparr> passed = (9 / 10 \<le> consistencyScore), score = Some consistencyScore \<rparr>)"

definition checkSecurityImplications :: "qa_helpers \<Rightarrow> recommendation \<Rightarrow> check_result" where
  "checkSecurityImplications h r =
     (let securityChecks = [checkDataProtection h r, checkAccessControl h r,
                            checkInputValidation h r, checkOutputSanitization h r,
                            checkCryptographyUsage h r, checkVulnerabilityIntroduction h r];
          secureChecks = length (filter (\<lambda>c. c) securityChecks);
          totalChecks = length securityChecks;
          securityScore = of_nat secureChecks / of_nat totalChecks
      in \<lparr> passed = (19 / 20 \<le> securityScore), score = Some securityScore \<rparr>)"

subsection \<open>Aggregation\<close>

record quality_checks =
  expertiseAlignment :: check_result
  recommendationQuality :: check_result
  implementationViability :: check_result
  riskAssessment :: risk_result
  consistencyCheck :: check_result
  securityCheck :: check_result

text \<open>The checks in the order \<open>Object.entries\<close> and \<open>Object.values\<close> enumerate them.\<close>

definition checkEntries :: "quality_checks \<Rightarrow> (string \<times> check_result) list" where
  "checkEntries cs =
     [(''expertiseAlignment'', expertiseAlignment cs),
      (''recommendationQuality'', recommendationQuality cs),
      (''implementationViability'', implementationViability cs),
      (''riskAssessment'', check_result.truncate (riskAssessment cs)),
      (''consistencyCheck'', consistencyCheck cs),
      (''securityCheck'', securityCheck cs)]"

definition weights :: "(string \<times> rat) list" where
  "weights = [(''expertiseAlignment'', 1 / 5), (''recommendationQuality'', 1 / 4),
     (''implementationViability'', 1 / 5), (''riskAssessment'', 3 / 20),
     (''consistencyCheck'', 1 / 10), (''securityCheck'', 1 / 10)]"

fun weightedTotals :: "(string \<times> check_result) list \<Rightarrow> (string \<times> rat) list \<Rightarrow>
    jsnum \<times> rat \<Rightarrow> jsnum \<times> rat" where
  "weightedTotals entries [] acc = acc"
| "weightedTotals entries ((checkName, weight) # ws) (totalScore, totalWeight) =
     (case map_of entries checkName of
        None \<Rightarrow> weightedTotals entries ws (totalScore, totalWeight)
      | Some c \<Rightarrow> weightedTotals entries ws
                   (js_add totalScore (js_scale (score c) weight), totalWeight + weight))"

definition calculateQualityScore :: "quality_checks \<Rightarrow> jsnum" where
  "calculateQualityScore cs =
     (case weightedTotals (checkEntries cs) weights (Some 0, 0) of
        (totalScore, totalWeight) \<Rightarrow>
          if 0 < totalWeight then js_div totalScore totalWeight else Some 0)"

definition allChecksPassed :: "quality_checks \<Rightarrow> bool" where
  "allChecksPassed cs = list_all (\<lambda>(name, check). passed check) (checkEntries cs)"

definition suggestions :: "(string \<times> string) list" where
  "suggestions =
     [(''expertiseAlignment'',
         ''Consider consulting a different specialist or adding domain expertise''),
      (''recommendationQuality'', ''Improve completeness, clarity, and documentation''),
      (''implementationViability'', ''Review resource requirements and dependencies''),
      (''riskAssessment'', ''Implement additional risk mitigation strategies''),
      (''consistencyCheck'',
         ''Align with existing architectural patterns and coding standards''),
      (''securityCheck'',
         ''Address security vulnerabilities and implement security best practices'')]"

definition getImprovementSuggestion :: "string \<Rightarrow> string" where
  "getImprovementSuggestion checkName =
     (case map_of suggestions checkName of
        None \<Rightarrow> ''Review and improve this aspect''
      | Some s \<Rightarrow> s)"

record improvement =
  area :: string
  imp_score :: jsnum
  suggestion :: string

definition suggestImprovements :: "quality_checks \<Rightarrow> improvement list" where
  "suggestImprovements cs =
     map (\<lambda>(checkName, result).
            \<lparr> area = checkName, imp_score = score result,
              suggestion = getImprovementSuggestion checkName \<rparr>)
         (filter (\<lambda>(checkName, result). \<not> passed result) (checkEntries cs))"

definition needsEscalation :: "quality_checks \<Rightarrow> bool" where
  "needsEscalation cs =
     (let hasCriticalFailure = (\<not> passed (securityCheck cs) \<or> \<not> passed (riskAssessment cs));
          overall = calculateQualityScore cs;
          scoreTooLow = js_lt overall (3 / 5)
      in hasCriticalFailure \<or> scoreTooLow)"

definition assignQualityGrade :: "jsnum \<Rightarrow> string" where
  "assignQualityGrade s =
     (if js_ge s (19 / 20) then ''A+''
      else if js_ge s (9 / 10) then ''A''
      else if js_ge s (17 / 20) then ''A-''
      else if js_ge s (4 / 5) then ''B+''
      else if js_ge s (3 / 4) then ''B''
      else if js_ge s (7 / 10) then ''B-''
      else if js_ge s (13 / 20) then ''C+''
      else if js_ge s (3 / 5) then ''C''
      else if js_ge s (11 / 20) then ''C-''
      else if js_ge s (1 / 2) then ''D''
      else ''F'')"

record quality_validation =
  v_passed :: bool
  v_score :: jsnum
  checks :: quality_checks
  improvements :: "improvement list"
  escalationNeeded :: bool
  qualityGrade :: string

definition validateSpecialistRecommendation ::
    "qa_helpers \<Rightarrow> string option \<Rightarrow> recommendation \<Rightarrow> task \<Rightarrow> quality_validation" where
  "validateSpecialistRecommendation h sp r t =
     (let cs = \<lparr> expertiseAlignment = checkExpertiseAlignment sp t,
                  recommendationQuality = assessRecommendationQuality h r,
                  implementationViability = checkImplementationViability r,
                  riskAssessment = assessRisks h r,
                  consistencyCheck = checkConsistency h r t,
                  securityCheck = checkSecurityImplications h r \<rparr>;
          overall = calculateQualityScore cs;
          ok = allChecksPassed cs
      in \<lparr> v_passed = ok, v_score = overall, checks = cs,
           improvements = suggestImprovements cs,
           escalationNeeded = needsEscalation cs,
           qualityGrade = assignQualityGrade overall \<rparr>)"


text \<open>
  An example: every absent check reports the best result except one security check, and
  the recommendation is complete and well documented.
\<close>

definition exampleHelpers :: qa_helpers where
  "exampleHelpers =
     \<lparr> assessTechnicalRisks = (\<lambda>r. 0), assessSecurityRisks = (\<lambda>r. 0),
       assessPerformanceRisks = (\<lambda>r. 0), assessMaintenanceRisks = (\<lambda>r. 0),
       assessBusinessRisks = (\<lambda>r. 0), categorizeRiskLevel = (\<lambda>x. ''low''),
       checkArchitecturalConsistency = (\<lambda>r. True), checkCodingStandards = (\<lambda>r. True),
       checkNamingConsistency = (\<lambda>r. True), checkPatternConsistency = (\<lambda>r t. True),
       checkDataProtection = (\<lambda>r. True), checkAccessControl = (\<lambda>r. True),
       checkInputValidation = (\<lambda>r. True), checkOutputSanitization = (\<lambda>r. True),
       checkCryptographyUsage = (\<lambda>r. True), checkVulnerabilityIntroduction = (\<lambda>r. False),
       stringify = (\<lambda>r. case rec_description r of None \<Rightarrow> [] | Some d \<Rightarrow> d) \<rparr>"

definition exampleRecommendation :: recommendation where
  "exampleRecommendation =
     \<lparr> approach = ''integration-generalist-consultation'',
       rec_implementation = Some \<lparr> overview = ''plan'', steps = [], plan_patterns = [],
                                   plan_technologies = [], considerations = [] \<rparr>,
       rec_testing = Some ''unit and integration tests'',
       rec_deployment = Some ''staged rollout'',
       rec_description =
         Some ''Error handling, logging, validation, testing and documentation for the REST API'',
       rec_documentation = Some ''README'',
       rationale = None, risks = [], rec_timeline = Some ''2-4 hours'',
       rec_resources = Some \<lparr> personnel = [], tools = [], res_time = ''2-4 hours'' \<rparr>,
       qualityMetrics = [], testingStrategy = None, rec_confidence = 4 / 5 \<rparr>"

definition exampleTask :: task where
  "exampleTask = emptyTask \<lparr> domain := Some ''integration'', technologies := Some [''rest''],
     complexityScore := Some 4 \<rparr>"

section \<open>ErrorRecoverySystem\<close>

record failure =
  f_task :: "task option"
  f_approach :: "string option"
  errorDetails :: "string option"
  environment :: "string option"
  f_timestamp :: "string option"
  primaryCause :: "string option"
  severity :: jsnum
  failureTypes :: "string list option"
  affectsProduction :: bool
  blocksOtherWork :: bool
  qualityIssues :: "improvement list"

record preserved_context =
  originalTask :: "task option"
  attemptedApproach :: "string option"
  pc_errorDetails :: "string option"
  pc_environment :: "string option"
  pc_timestamp :: "string option"






record escalation_strategy =
  es_from :: tier
  es_to :: tier
  es_reason :: string
  es_context :: preserved_context
  specialistRequirements :: "string list"
  urgency :: int
  estimatedResolution :: string

text \<open>
  \<open>autoEscalateTier\<close> calls five static methods that no source file defines; they are
  parameters of the model.
\<close>

record recovery_helpers =
  estimateResolutionTime :: "tier \<Rightarrow> failure \<Rightarrow> string"
  estimateEscalationTime :: "escalation_strategy \<Rightarrow> string"
  calculateRequiredResources :: "escalation_strategy \<Rightarrow> string list"
  estimateSuccessProbability :: "escalation_strategy \<Rightarrow> rat"
  createEscalationRollbackPlan :: "escalation_strategy \<Rightarrow> string list"





section \<open>ContextManager\<close>

text \<open>
  Time is the clock reading in milliseconds since the epoch; each operation that reads
  the clock takes it as its \<open>now\<close> argument, and an ISO timestamp is the millisecond
  count it denotes. Identifiers drawn from the clock and \<open>Math.random\<close> are arguments as
  well. \<open>Array.prototype.sort\<close> sorts in place; the model sorts a copy and does not track
  the reordering of the caller's arrays, whose order no decision reads.
  \<open>updateProjectContext\<close> and its pattern extraction are not modelled: the pattern
  library holds success patterns only.
\<close>

record project_context =
  architecturalDecisions :: "string list"
  currentState :: "(string \<times> string) list"
  constraints :: "string list"
  objectives :: "string list"
  ctx_timestamp :: int
  version :: nat

record direct_implementation =
  di_approach :: string
  di_implementation :: string
  di_confidence :: rat
  estimatedEffort :: int

datatype task_result = DirectResult direct_implementation | ConsultationResult recommendation

record outcome =
  successful :: bool
  out_result :: task_result
  executionTime :: int
  qualityScore :: jsnum
  userSatisfaction :: jsnum
  implementationTime :: jsnum

record normalized_task =
  nt_domain :: "string option"
  nt_technologies :: "string list"
  nt_complexity :: int
  nt_patterns :: "string list"
  nt_requirements :: "string list"

record success_metrics =
  sm_qualityScore :: jsnum
  sm_userSatisfaction :: jsnum
  sm_implementationTime :: jsnum
  sm_count :: "nat option"

record pattern =
  pattern_id :: string
  pattern_task :: normalized_task
  pattern_specialist :: "string option"
  pattern_approach :: recommendation
  pattern_outcome :: outcome
  successMetrics :: success_metrics
  pattern_context :: "project_context option"
  pattern_timestamp :: int
  usageCount :: nat
  successRate :: rat
  lastUsed :: "int option"
  relevanceScore :: "rat option"

record consultation =
  c_specialist :: "string option"
  c_task :: task
  c_recommendation :: recommendation
  c_patterns :: "pattern list"
  c_timestamp :: int
  c_result :: recommendation
  c_quality :: "quality_validation option"
  c_outcome :: "outcome option"

record cache_entry =
  ce_specialist :: "string option"
  ce_task :: task
  ce_recommendation :: recommendation
  ce_outcome :: "outcome option"
  ce_quality :: "quality_validation option"
  cacheKey :: string
  expirationTime :: int
  ce_timestamp :: int

record analytics_event =
  ev_type :: string
  ev_cacheKey :: string
  ev_timestamp :: int

record specialist_metrics =
  totalConsultations :: nat
  successfulConsultations :: nat
  averageQualityScore :: jsnum
  lastConsultation :: "int option"
  firstConsultation :: int

text \<open>
  The manager's state: its configuration and the four stores. The pattern library is a
  \<open>Map\<close> whose iteration order matters, so it is an association list in insertion
  order.
\<close>

record context_manager =
  cm_learningEnabled :: bool
  cacheExpiration :: string
  contexts :: "nat \<rightharpoonup> project_context"
  currentVersion :: nat
  cache :: "string \<rightharpoonup> cache_entry"
  patternLibrary :: "(string \<times> pattern) list"
  events :: "analytics_event list"
  specialistMetrics :: "string option \<rightharpoonup> specialist_metrics"


subsection \<open>Fingerprints and cache keys\<close>

text \<open>\<open>x || d\<close> on an optional number: absent and zero both give the default.\<close>

definition or_default :: "rat option \<Rightarrow> rat \<Rightarrow> rat" where
  "or_default x d = (case x of None \<Rightarrow> d | Some v \<Rightarrow> if v = 0 then d else v)"















subsection \<open>Expiration\<close>








subsection \<open>Specialist cache\<close>








subsection \<open>Pattern library\<close>


definition patternRelevance :: "task \<Rightarrow> pattern \<Rightarrow> rat" where
  "patternRelevance t p =
     (let r = (if nt_domain (pattern_task p) = domain t then 10 else 0);
          techMatches = (case technologies t of
                           None \<Rightarrow> 0
                         | Some ts \<Rightarrow> length (filter
                             (\<lambda>tech. tech \<in> set (nt_technologies (pattern_task p))) ts));
          r = r + of_nat techMatches * 2;
          complexityDiff = \<bar>or_default (Some (of_int (nt_complexity (pattern_task p)))) 5
                            - or_default (complexity t) 5\<bar>;
          r = r + max 0 (5 - complexityDiff)
      in r)"

text \<open>
  \<open>search\<close> writes the relevance score into every stored pattern and keeps those that
  reach 0.7 * 15; \<open>getRelevantPatterns\<close> sorts them by descending score.
\<close>

definition searchPatterns :: "task \<Rightarrow> context_manager \<Rightarrow> pattern list \<times> context_manager" where
  "searchPatterns t cm =
     (let scored = map (\<lambda>(pid, p). (pid, p \<lparr> relevanceScore := Some (patternRelevance t p) \<rparr>))
                       (patternLibrary cm);
          found = filter (\<lambda>p. 21 / 2 \<le> patternRelevance t p) (map snd scored)
      in (found, cm \<lparr> patternLibrary := scored \<rparr>))"

definition getRelevantPatterns :: "task \<Rightarrow> context_manager \<Rightarrow> pattern list \<times> context_manager" where
  "getRelevantPatterns t cm =
     (case searchPatterns t cm of
        (found, cm') \<Rightarrow> (sort_key (\<lambda>p. - patternRelevance t p) found, cm'))"





subsection \<open>Notions used to state the cache and pattern properties\<close>













section \<open>SpecialistRegistry\<close>

text \<open>
  Of each specialist profile the model keeps the members the orchestrator reads: name,
  domain, technologies, estimated time and tier.
\<close>

record specialist_info =
  si_name :: string
  si_domain :: string
  si_technologies :: "string list"
  si_estimatedTime :: string
  si_tier :: nat

definition allSpecialists :: "(string \<times> specialist_info) list" where
  "allSpecialists =
     [
      (''architecture-generalist'',
        \<lparr>si_name = ''Architecture Generalist'', si_domain = ''System design, scalability, patterns'',
         si_technologies = [''microservices'', ''design-patterns'', ''scalability'', ''system-design''],
         si_estimatedTime = ''2-4 hours'', si_tier = 1\<rparr>),
      (''security-generalist'',
        \<lparr>si_name = ''Security Generalist'', si_domain = ''Authentication, authorization, data protection'',
         si_technologies = [''oauth'', ''jwt'', ''encryption'', ''api-security''],
         si_estimatedTime = ''2-4 hours'', si_tier = 1\<rparr>),
      (''performance-generalist'',
        \<lparr>si_name = ''Performance Generalist'', si_domain = ''Optimization, caching, scaling, monitoring'',
         si_technologies = [''caching'', ''monitoring'', ''profiling'', ''optimization''],
         si_estimatedTime = ''2-4 hours'', si_tier = 1\<rparr>),
      (''data-generalist'',
        \<lparr>si_name = ''Data Generalist'', si_domain = ''Database design, modeling, analytics'',
         si_technologies = [''sql'', ''nosql'', ''data-modeling'', ''analytics''],
         si_estimatedTime = ''2-4 hours'', si_tier = 1\<rparr>),
      (''integration-generalist'',
        \<lparr>si_name = ''Integration Generalist'', si_domain = ''APIs, third-party services, microservices'',
         si_technologies = [''rest'', ''graphql'', ''webhooks'', ''microservices''],
         si_estimatedTime = ''2-4 hours'', si_tier = 1\<rparr>),
      (''frontend-generalist'',
        \<lparr>si_name = ''Frontend Generalist'', si_domain = ''UI/UX, responsive design, accessibility'',
         si_technologies = [''react'', ''vue'', ''angular'', ''css'', ''javascript''],
         si_estimatedTime = ''2-4 hours'', si_tier = 1\<rparr>),
      (''database-specialist'',
        \<lparr>si_name = ''Database Specialist'', si_domain = ''PostgreSQL, Redis, performance tuning'',
         si_technologies = [''postgresql'', ''redis'', ''mongodb'', ''query-optimization''],
         si_estimatedTime = ''8-16 hours'', si_tier = 2\<rparr>),
      (''api-design-specialist'',
        \<lparr>si_name = ''API Design Specialist'', si_domain = ''REST, GraphQL, versioning'',
         si_technologies = [''rest'', ''graphql'', ''openapi'', ''api-versioning''],
         si_estimatedTime = ''8-16 hours'', si_tier = 2\<rparr>),
      (''auth-systems-specialist'',
        \<lparr>si_name = ''Auth Systems Specialist'', si_domain = ''OAuth, JWT, SSO, MFA'',
         si_technologies = [''oauth2'', ''saml'', ''jwt'', ''mfa'', ''sso''],
         si_estimatedTime = ''8-16 hours'', si_tier = 2\<rparr>),
      (''performance-optimization-specialist'',
        \<lparr>si_name = ''Performance Optimization Specialist'', si_domain = ''Profiling, memory/CPU optimization'',
         si_technologies = [''profiling'', ''memory-optimization'', ''monitoring'', ''apm''],
         si_estimatedTime = ''8-16 hours'', si_tier = 2\<rparr>),
      (''ml-integration-specialist'',
        \<lparr>si_name = ''ML Integration Specialist'', si_domain = ''ML APIs, model serving, AI integration'',
         si_technologies = [''tensorflow'', ''pytorch'', ''ml-apis'', ''model-serving''],
         si_estimatedTime = ''8-16 hours'', si_tier = 2\<rparr>),
      (''testing-strategy-specialist'',
        \<lparr>si_name = ''Testing Strategy Specialist'', si_domain = ''Test automation, CI/CD, frameworks'',
         si_technologies = [''jest'', ''cypress'', ''ci-cd'', ''test-automation''],
         si_estimatedTime = ''8-16 hours'', si_tier = 2\<rparr>),
      (''system-architect'',
        \<lparr>si_name = ''System Architect'', si_domain = ''Enterprise architecture, cross-domain coordination'',
         si_technologies = [''enterprise-architecture'', ''system-design'', ''governance''],
         si_estimatedTime = ''24-48 hours'', si_tier = 3\<rparr>),
      (''integration-architect'',
        \<lparr>si_name = ''Integration Architect'', si_domain = ''Service mesh, enterprise integration patterns'',
         si_technologies = [''service-mesh'', ''event-driven'', ''distributed-systems''],
         si_estimatedTime = ''24-48 hours'', si_tier = 3\<rparr>),
      (''scale-architect'',
        \<lparr>si_name = ''Scale Architect'', si_domain = ''Horizontal scaling, distributed systems'',
         si_technologies = [''horizontal-scaling'', ''load-balancing'', ''fault-tolerance''],
         si_estimatedTime = ''24-48 hours'', si_tier = 3\<rparr>),
      (''security-architect'',
        \<lparr>si_name = ''Security Architect'', si_domain = ''Security governance, compliance, threat modeling'',
         si_technologies = [''enterprise-security'', ''compliance'', ''threat-modeling''],
         si_estimatedTime = ''24-48 hours'', si_tier = 3\<rparr>),
      (''data-architect'',
        \<lparr>si_name = ''Data Architect'', si_domain = ''Data lakes, warehouses, governance'',
         si_technologies = [''data-lakes'', ''data-warehouses'', ''data-governance''],
         si_estimatedTime = ''24-48 hours'', si_tier = 3\<rparr>),
      (''governance-architect'',
        \<lparr>si_name = ''Governance Architect'', si_domain = ''Compliance, policy enforcement, governance'',
         si_technologies = [''governance'', ''compliance'', ''policy-enforcement''],
         si_estimatedTime = ''24-48 hours'', si_tier = 3\<rparr>)]"

definition registryCapabilities :: "string option \<Rightarrow> specialist_info option" where
  "registryCapabilities specialistId =
     (case specialistId of None \<Rightarrow> None | Some s \<Rightarrow> map_of allSpecialists s)"

section \<open>SubAgentOrchestrator\<close>

text \<open>
  The orchestrator's state: the context manager, the learning log of its error-recovery
  instance, the performance-metrics table (a \<open>Map\<close> in insertion order), the clock and a
  counter that stands for \<open>Math.random\<close> in generated identifiers. The clock does not
  advance during one call. Methods that the classes call but no source file defines are
  parameters, collected in \<open>environment\<close>; those of the error-recovery instance are
  taken to return a value without changing the state. No step of \<open>processTask\<close>'s
  \<open>try\<close> block raises in the model, so its \<open>catch\<close> branch is not modelled.
\<close>

record feedback =
  satisfaction :: jsnum
  comments :: "string option"

record performance_metrics =
  pm_complexity :: "rat option"
  pm_tier :: "tier option"
  pm_executionTime :: int
  pm_qualityScore :: jsnum
  pm_success :: bool
  pm_timestamp :: int
  userFeedback :: "feedback option"
  pm_userSatisfaction :: jsnum

record satisfaction_analysis =
  satisfactionScore :: rat
  qualityGaps :: "string list"
  routingAccuracy :: rat
  timelineSatisfaction :: rat
  expertiseMismatch :: bool

record dissatisfaction =
  dissatisfied :: bool
  dissatisfactionLevel :: string
  analysis :: satisfaction_analysis
  improvementNeeds :: "string list"
  routingAdjustmentNeeded :: bool
  d_timestamp :: int




record feedback_helpers =
  calculateSatisfactionScore :: "feedback \<Rightarrow> rat"
  identifyQualityGaps :: "feedback \<Rightarrow> performance_metrics \<Rightarrow> string list"
  assessRoutingAccuracy :: "feedback \<Rightarrow> rat"
  assessTimelineSatisfaction :: "feedback \<Rightarrow> rat"
  detectExpertiseMismatch :: "feedback \<Rightarrow> bool"
  calculateOverallDissatisfaction :: "satisfaction_analysis \<Rightarrow> rat"
  categorizeDissatisfactionLevel :: "rat \<Rightarrow> string"
  identifyImprovementNeeds :: "satisfaction_analysis \<Rightarrow> string list"
  analyzeDissatisfactionRoot :: "dissatisfaction \<Rightarrow> string"
  assessRoutingDecisionQuality :: "routing_decision option \<Rightarrow> string"
  developDissatisfactionImprovementStrategy :: "dissatisfaction \<Rightarrow> string"
  developDissatisfactionPreventionMeasures :: "dissatisfaction \<Rightarrow> string"
  analyzeExpectationMismatch :: "dissatisfaction \<Rightarrow> string"

record environment =
  qa :: qa_helpers
  recovery :: recovery_helpers
  feedbackHelpers :: feedback_helpers
  generateConsiderations :: "task \<Rightarrow> specialist_info option \<Rightarrow> string list"


subsection \<open>Synthesising a recommendation\<close>

text \<open>\<open>x || d\<close> on an optional string: absent and empty both give the default.\<close>

definition text_or :: "string option \<Rightarrow> string \<Rightarrow> string" where
  "text_or x d = (case x of None \<Rightarrow> d | Some s \<Rightarrow> if s = [] then d else s)"


definition baseSteps :: "string list" where
  "baseSteps =
     [''Analyze requirements and constraints'',
      ''Design solution architecture'',
      ''Implement core functionality'',
      ''Add error handling and validation'',
      ''Create tests and documentation'',
      ''Deploy and monitor'']"

text \<open>\<open>splice(3, 0, x)\<close> inserts at index 3, \<open>splice(-1, 0, x)\<close> before the last element.\<close>

definition generateImplementationSteps :: "task \<Rightarrow> specialist_info option \<Rightarrow> string list" where
  "generateImplementationSteps t info =
     (let domainText = (case info of None \<Rightarrow> None | Some i \<Rightarrow> Some (si_domain i));
          xs = baseSteps;
          xs = (if (case domainText of None \<Rightarrow> False | Some d \<Rightarrow> str_includes d ''security'')
                then take 3 xs @ [''Implement security measures''] @ drop 3 xs else xs);
          xs = (if (case domainText of None \<Rightarrow> False | Some d \<Rightarrow> str_includes d ''performance'')
                then take (length xs - 1) xs @ [''Optimize performance''] @ drop (length xs - 1) xs
                else xs)
      in xs)"

definition infoTechnologies :: "specialist_info option \<Rightarrow> string list" where
  "infoTechnologies info = (case info of None \<Rightarrow> [] | Some i \<Rightarrow> si_technologies i)"

definition generateImplementationPlan ::
    "environment \<Rightarrow> task \<Rightarrow> specialist_info option \<Rightarrow> pattern list \<Rightarrow> implementation_plan" where
  "generateImplementationPlan env t info ps =
     (let relevantPatterns = take 3 ps
      in \<lparr> overview = ''Implementation plan for '' @ text_or (domain t) ''general'' @ '' task'',
           steps = generateImplementationSteps t info,
           plan_patterns = map pattern_id relevantPatterns,
           plan_technologies = infoTechnologies info,
           considerations = generateConsiderations env t info \<rparr>)"

definition generateRationale :: "task \<Rightarrow> specialist_info option \<Rightarrow> string" where
  "generateRationale t info =
     ''This approach leverages '' @
     (case info of None \<Rightarrow> ''specialist''
      | Some i \<Rightarrow> if si_name i \<noteq> [] then si_name i else ''specialist'') @
     '' expertise in '' @
     (case info of None \<Rightarrow> ''the relevant domain''
      | Some i \<Rightarrow> if si_domain i \<noteq> [] then si_domain i else ''the relevant domain'') @
     '' to address the specific requirements of the task.''"

definition identifyRisks :: "task \<Rightarrow> specialist_info option \<Rightarrow> risk list" where
  "identifyRisks t info =
     [\<lparr> risk_type = ''technical'', probability = 3 / 10, impact = ''medium'',
        mitigation = ''Thorough testing'' \<rparr>,
      \<lparr> risk_type = ''timeline'', probability = 1 / 5, impact = ''low'',
        mitigation = ''Buffer time allocation'' \<rparr>] @
     (if (case complexity t of None \<Rightarrow> False | Some cx \<Rightarrow> 7 < cx)
      then [\<lparr> risk_type = ''complexity'', probability = 1 / 2, impact = ''high'',
               mitigation = ''Break down into smaller components'' \<rparr>]
      else [])"

definition estimateTimeline :: "task \<Rightarrow> specialist_info option \<Rightarrow> string" where
  "estimateTimeline t info =
     (let baseText = (case info of None \<Rightarrow> ''4-8 hours''
                      | Some i \<Rightarrow> if si_estimatedTime i \<noteq> [] then si_estimatedTime i
                                  else ''4-8 hours'');
          cx = or_default (complexity t) 5
      in if 7 < cx then baseText @ '' (extended due to complexity)''
         else if cx < 3 then baseText @ '' (possibly shorter due to simplicity)''
         else baseText)"

definition identifyResources :: "task \<Rightarrow> specialist_info option \<Rightarrow> resources" where
  "identifyResources t info =
     \<lparr> personnel = [case info of None \<Rightarrow> ''Specialist''
                     | Some i \<Rightarrow> if si_name i \<noteq> [] then si_name i else ''Specialist''],
       tools = infoTechnologies info,
       res_time = estimateTimeline t info \<rparr>"

definition defineQualityMetrics :: "task \<Rightarrow> string list" where
  "defineQualityMetrics t =
     [''Code quality score > 8/10'', ''Test coverage > 80%'', ''Performance benchmarks met'',
      ''Security scan passes'', ''Documentation completeness'']"

definition defineTestingStrategy :: "task \<Rightarrow> testing_strategy" where
  "defineTestingStrategy t =
     \<lparr> ts_unit = ''Component-level testing'', ts_integration = ''API integration testing'',
       ts_e2e = ''End-to-end workflow testing'', ts_performance = ''Load and stress testing'',
       ts_security = ''Security vulnerability testing'' \<rparr>"

definition calculateRecommendationConfidence ::
    "task \<Rightarrow> specialist_info option \<Rightarrow> pattern list \<Rightarrow> rat" where
  "calculateRecommendationConfidence t info ps =
     (let c = 7 / 10;
          c = c + (if (case info of
                         None \<Rightarrow> False
                       | Some i \<Rightarrow>
                           (case domain t of
                              None \<Rightarrow> False
                            | Some d \<Rightarrow> d \<noteq> [] \<and> str_includes (si_domain i) d))
                   then 1 / 10 else 0);
          c = c + min (of_nat (length ps) * (1 / 20)) (3 / 20);
          c = c - (if (case complexity t of None \<Rightarrow> False | Some cx \<Rightarrow> 8 < cx) then 1 / 10 else 0)
      in min (max c (1 / 10)) (19 / 20))"

definition generateSpecialistRecommendation ::
    "environment \<Rightarrow> task \<Rightarrow> string option \<Rightarrow> specialist_info option \<Rightarrow> pattern list \<Rightarrow>
     recommendation" where
  "generateSpecialistRecommendation env t sp info ps =
     \<lparr> approach = (case sp of None \<Rightarrow> ''null'' | Some s \<Rightarrow> s) @ ''-consultation'',
       rec_implementation = Some (generateImplementationPlan env t info ps),
       rec_testing = None, rec_deployment = None, rec_description = None,
       rec_documentation = None,
       rationale = Some (generateRationale t info),
       risks = identifyRisks t info,
       rec_timeline = Some (estimateTimeline t info),
       rec_resources = Some (identifyResources t info),
       qualityMetrics = defineQualityMetrics t,
       testingStrategy = Some (defineTestingStrategy t),
       rec_confidence = calculateRecommendationConfidence t info ps \<rparr>"

definition executeSpecialistConsultation ::
    "environment \<Rightarrow> int \<Rightarrow> task \<Rightarrow> routing_decision \<Rightarrow> context_manager \<Rightarrow>
     consultation \<times> context_manager" where
  "executeSpecialistConsultation env now t rd cm =
     (let sp = specialist rd;
          specialistInfo = registryCapabilities sp
      in case getRelevantPatterns t cm of
           (relevantPatterns, cm') \<Rightarrow>
             (let r = generateSpecialistRecommendation env t sp specialistInfo relevantPatterns
              in (\<lparr> c_specialist = sp, c_task = t, c_recommendation = r,
                     c_patterns = relevantPatterns, c_timestamp = now, c_result = r,
                     c_quality = None, c_outcome = None \<rparr>, cm')))"

subsection \<open>Outcomes\<close>














subsection \<open>The pipeline\<close>





subsection \<open>Feedback\<close>




datatype error = TaskNotFound string



subsection \<open>Example environments and states\<close>






subsection \<open>Notions used to state the caching invariant\<close>






section \<open>Properties of the analyzer\<close>

















lemma enterprise_scope: "analyzeScopeComplexity enterpriseTask = 10"
  by (simp add: analyzeScopeComplexity_def enterpriseTask_def emptyTask_def length_eq_def
      length_gt_def bump_def)

lemma enterprise_technical: "analyzeTechnicalComplexity enterpriseTask = 4"
  by (simp add: analyzeTechnicalComplexity_def enterpriseTask_def emptyTask_def some_in_def
      includes_opt_def complexTechnologies_def bump_def)

lemma enterprise_domain: "analyzeDomainComplexity enterpriseTask = 1"
  by (simp add: analyzeDomainComplexity_def enterpriseTask_def emptyTask_def
      includes_opt_def bump_def)

lemma enterprise_risk: "analyzeRiskLevel enterpriseTask = 1"
  by (simp add: analyzeRiskLevel_def enterpriseTask_def emptyTask_def includes_opt_def bump_def)

lemma enterprise_analysis:
  "overallScore (analyzeTask enterpriseTask) = 23 / 5 \<and> tier (analyzeTask enterpriseTask) = TIER_1"
  by (simp add: analyzeTask_def calculateOverallComplexity_def Let_def enterprise_scope
      enterprise_technical enterprise_domain enterprise_risk)

lemma enterprise_taskText:
  "taskText enterpriseTask = ''undefined undefined distributed-systems microservices''"
  by (simp add: taskText_def enterpriseTask_def emptyTask_def template_text_def toLowerCase_def
      toLowerChar_def)

lemma enterprise_identifyDomain: "identifyDomain enterpriseTask = ''integration''"
proof -
  have "domain enterpriseTask = None"
    by (simp add: enterpriseTask_def emptyTask_def)
  moreover have "firstKeywordDomain domainKeywords
      ''undefined undefined distributed-systems microservices'' = ''integration''"
    by code_simp
  ultimately show ?thesis
    by (simp add: identifyDomain_def enterprise_taskText)
qed

lemma enterprise_specialist:
  "selectSpecialist enterpriseTask (analyzeTask enterpriseTask) = Some ''integration-generalist''"
  by (simp add: selectSpecialist_def enterprise_identifyDomain enterprise_analysis
      getSpecialistsForDomain_def specialistMapping_def selectBestSpecialist_def)


lemma enterprise_route_tier: "tier (rd_complexity (route enterpriseTask)) = TIER_1"
  by (simp add: route_def Let_def enterprise_analysis)

lemma enterprise_route_checks:
  "qualityChecks (route enterpriseTask) = [''syntax-check'', ''unit-tests'', ''code-review'']"
  by (simp add: route_def Let_def enterprise_analysis getQualityChecks_def)

text \<open>
  C7, as stated, fails: for the scenario task the router does not yield TIER_3 and the
  checklist does not have length 8.
\<close>

theorem enterprise_route_counterexample:
  "\<not> (r_tier (routing (route enterpriseTask)) = TIER_3 \<and>
      length (qualityChecks (route enterpriseTask)) = 8)"
  by (simp add: route_def Let_def enterprise_analysis)

text \<open>
  C7, amended. The analyzer never reads the raw \<open>complexity\<close> field, so the scenario task
  scores scope 10, technical 4, domain 1, risk 1, overall 4.6: routing yields tier TIER_1, a
  quality checklist of length 3, and the tier-1 specialist \<open>integration-generalist\<close>, the
  only candidate for the domain inferred from the technology tags.
\<close>

theorem enterprise_route_amended:
  "overallScore (rd_complexity (route enterpriseTask)) = 23 / 5 \<and>
   r_tier (routing (route enterpriseTask)) = TIER_1 \<and>
   length (qualityChecks (route enterpriseTask)) = 3 \<and>
   identifyDomain enterpriseTask = ''integration'' \<and>
   getSpecialistsForDomain ''integration'' TIER_1 = [''integration-generalist''] \<and>
   specialist (route enterpriseTask) = Some ''integration-generalist''"
  using enterprise_route_checks
  by (simp add: route_def Let_def enterprise_analysis enterprise_identifyDomain
      enterprise_specialist getSpecialistsForDomain_def specialistMapping_def
      getQualityChecks_def)

section \<open>Properties of the quality gate\<close>

lemma js_ge_Some [simp]: "js_ge (Some x) b = (b \<le> x)"
  by (simp add: js_ge_def)

lemma expertise_passed:
  "passed (checkExpertiseAlignment sp t) = js_ge (score (checkExpertiseAlignment sp t)) (7 / 10)"
  by (simp add: checkExpertiseAlignment_def Let_def)

lemma quality_passed:
  "passed (assessRecommendationQuality h r) =
     js_ge (score (assessRecommendationQuality h r)) (4 / 5)"
  by (simp add: assessRecommendationQuality_def Let_def)

lemma viability_passed:
  "passed (checkImplementationViability r) =
     js_ge (score (checkImplementationViability r)) (4 / 5)"
  by (simp add: checkImplementationViability_def Let_def)

lemma risk_passed:
  "passed (assessRisks h r) = (riskLevel (assessRisks h r) \<noteq> ''high'')"
  by (simp add: assessRisks_def Let_def)

lemma consistency_passed:
  "passed (checkConsistency h r t) = js_ge (score (checkConsistency h r t)) (9 / 10)"
  by (simp add: checkConsistency_def Let_def)

lemma security_passed:
  "passed (checkSecurityImplications h r) =
     js_ge (score (checkSecurityImplications h r)) (19 / 20)"
  by (simp add: checkSecurityImplications_def Let_def)

lemma allChecksPassed_conj:
  "allChecksPassed cs =
     (passed (expertiseAlignment cs) \<and> passed (recommendationQuality cs) \<and>
      passed (implementationViability cs) \<and> passed (riskAssessment cs) \<and>
      passed (consistencyCheck cs) \<and> passed (securityCheck cs))"
  by (simp add: allChecksPassed_def checkEntries_def check_result.truncate_def)

lemma validation_checks:
  "checks (validateSpecialistRecommendation h sp r t) =
     \<lparr> expertiseAlignment = checkExpertiseAlignment sp t,
       recommendationQuality = assessRecommendationQuality h r,
       implementationViability = checkImplementationViability r,
       riskAssessment = assessRisks h r,
       consistencyCheck = checkConsistency h r t,
       securityCheck = checkSecurityImplications h r \<rparr>"
  by (simp add: validateSpecialistRecommendation_def Let_def)

lemma validation_passed:
  "v_passed (validateSpecialistRecommendation h sp r t) =
     allChecksPassed (checks (validateSpecialistRecommendation h sp r t))"
  by (simp add: validateSpecialistRecommendation_def Let_def)

lemma validation_score:
  "v_score (validateSpecialistRecommendation h sp r t) =
     calculateQualityScore (checks (validateSpecialistRecommendation h sp r t))"
  by (simp add: validateSpecialistRecommendation_def Let_def)


lemma example_expertise:
  "checkExpertiseAlignment sp exampleTask = \<lparr> passed = True, score = Some 1 \<rparr>"
  by (simp add: checkExpertiseAlignment_def Let_def exampleTask_def emptyTask_def
      calculateDomainMatch_def qaCapabilityDomain_def calculateTechnologyMatch_def
      qaCapabilityTechnologies_def checkComplexityFit_def js_add_def js_scale_def js_div_def)

lemma example_text:
  "toLowerCase (stringify exampleHelpers exampleRecommendation) =
     ''error handling, logging, validation, testing and documentation for the rest api''"
proof -
  have "stringify exampleHelpers exampleRecommendation =
      ''Error handling, logging, validation, testing and documentation for the REST API''"
    by (simp add: exampleHelpers_def exampleRecommendation_def)
  moreover have "toLowerCase
      ''Error handling, logging, validation, testing and documentation for the REST API'' =
      ''error handling, logging, validation, testing and documentation for the rest api''"
    by code_simp
  ultimately show ?thesis by simp
qed

lemma example_best_practices: "checkBestPractices exampleHelpers exampleRecommendation = 1"
  unfolding checkBestPractices_def Let_def example_text bestPracticeIndicators_def
  by code_simp

lemma example_testability: "checkTestability exampleHelpers exampleRecommendation = 9 / 10"
  unfolding checkTestability_def Let_def example_text testabilityIndicators_def
  by code_simp

lemma example_quality:
  "assessRecommendationQuality exampleHelpers exampleRecommendation =
     \<lparr> passed = True, score = Some (14 / 15) \<rparr>"
  unfolding assessRecommendationQuality_def Let_def example_best_practices example_testability
  by (simp add: checkCompleteness_def requiredElementPresent_def checkClarity_def
      checkFeasibility_def checkDocumentation_def truthy_def exampleRecommendation_def)

lemma example_viability:
  "checkImplementationViability exampleRecommendation = \<lparr> passed = True, score = Some 1 \<rparr>"
  by (simp add: checkImplementationViability_def Let_def checkTimelineRealistic_def truthy_def
      exampleRecommendation_def)

lemma example_risk:
  "assessRisks exampleHelpers exampleRecommendation =
     \<lparr> passed = True, score = Some 1, riskLevel = ''low'' \<rparr>"
  by (simp add: assessRisks_def Let_def exampleHelpers_def)

lemma example_consistency:
  "checkConsistency exampleHelpers exampleRecommendation exampleTask =
     \<lparr> passed = True, score = Some 1 \<rparr>"
  by (simp add: checkConsistency_def Let_def exampleHelpers_def)

lemma example_security:
  "checkSecurityImplications exampleHelpers exampleRecommendation =
     \<lparr> passed = False, score = Some (5 / 6) \<rparr>"
  by (simp add: checkSecurityImplications_def Let_def exampleHelpers_def)

lemma example_validation:
  "v_passed (validateSpecialistRecommendation exampleHelpers sp exampleRecommendation exampleTask)
     = False \<and>
   v_score (validateSpecialistRecommendation exampleHelpers sp exampleRecommendation exampleTask)
     = Some (29 / 30)"
  by (simp add: validation_passed validation_score validation_checks allChecksPassed_conj
      example_expertise example_quality example_viability example_risk example_consistency
      example_security calculateQualityScore_def checkEntries_def weights_def
      check_result.truncate_def js_add_def js_scale_def js_div_def)

text \<open>
  C2. The \<open>passed\<close> flag of a validation is true exactly when each of the six checks
  meets its own bar: expertise alignment at least 0.70, recommendation quality at least
  0.80, implementation viability at least 0.80, risk level not "high", consistency at least
  0.90 and security at least 0.95. A high weighted average does not make it true: the
  example validation scores 29/30 overall and is not passed, one security check failing.
\<close>

theorem passed_iff_every_bar_met:
  "(v_passed (validateSpecialistRecommendation h sp r t) \<longleftrightarrow>
      js_ge (score (expertiseAlignment (checks (validateSpecialistRecommendation h sp r t)))) (7 / 10) \<and>
      js_ge (score (recommendationQuality (checks (validateSpecialistRecommendation h sp r t)))) (4 / 5) \<and>
      js_ge (score (implementationViability (checks (validateSpecialistRecommendation h sp r t)))) (4 / 5) \<and>
      riskLevel (riskAssessment (checks (validateSpecialistRecommendation h sp r t))) \<noteq> ''high'' \<and>
      js_ge (score (consistencyCheck (checks (validateSpecialistRecommendation h sp r t)))) (9 / 10) \<and>
      js_ge (score (securityCheck (checks (validateSpecialistRecommendation h sp r t)))) (19 / 20)) \<and>
   v_score (validateSpecialistRecommendation exampleHelpers None exampleRecommendation exampleTask)
     = Some (29 / 30) \<and>
   \<not> v_passed (validateSpecialistRecommendation exampleHelpers None exampleRecommendation exampleTask)"
  using example_validation [of None]
  by (simp add: validation_passed validation_checks allChecksPassed_conj
      expertise_passed [symmetric] quality_passed [symmetric] viability_passed [symmetric]
      risk_passed [symmetric] consistency_passed [symmetric] security_passed [symmetric])

section \<open>Properties of tier escalation\<close>


section \<open>Properties of the pattern library\<close>









section \<open>Properties of the specialist cache\<close>












section \<open>Properties of the orchestrator\<close>










lemma consultation_recommendation:
  "c_specialist (fst (executeSpecialistConsultation env now t rd cm)) = specialist rd"
  by (simp add: executeSpecialistConsultation_def Let_def split: prod.splits)






















subsection \<open>A run that caches a failed validation\<close>


















end
